theory Spec2Isabelle
  imports Complex_Main "HOL-Library.AList" "HOL-Library.Sublist"
begin

section \<open>Values of the configuration tree\<close>

text \<open>
  The configuration is a parsed JSON document. \<open>truthy\<close> is Python's truth value of
  such a value, as the \<open>if\<close> statements of \<open>fine_tune_model\<close> test it.
\<close>

datatype json =
    JNull
  | JBool bool
  | JNum real
  | JStr string
  | JList "json list"
  | JDict "(string \<times> json) list"

fun truthy :: "json \<Rightarrow> bool" where
  "truthy JNull = False"
| "truthy (JBool b) = b"
| "truthy (JNum n) = (n \<noteq> 0)"
| "truthy (JStr s) = (s \<noteq> [])"
| "truthy (JList xs) = (xs \<noteq> [])"
| "truthy (JDict kvs) = (kvs \<noteq> [])"

definition truthy_opt :: "json option \<Rightarrow> bool" where
  "truthy_opt v = (case v of None \<Rightarrow> False | Some x \<Rightarrow> truthy x)"

datatype error =
    ConfigurationError string
  | KeyError string
  | AttributeError
  | TypeError
  | ValueError
  | IndexError
  | OSError
  | KeyboardInterrupt
  | OtherError string

section \<open>The Params object\<close>

record params =
  entries :: "(string \<times> json) list"
  files_to_archive :: "(string \<times> string) list"

text \<open>
  Modelled from the spec: the class \<open>Params\<close> (allennlp.common.params) is not among the
  sources. The configuration tree is "consumed destructively -- sections are popped as
  they are used, and any leftover unconsumed keys constitute a configuration error".
  \<open>pop_opt\<close> is \<open>params.pop(key, default)\<close>: the stored value if there is one (the caller
  supplies the default), and the key is gone afterwards. \<open>pop\<close> is \<open>params.pop(key)\<close>,
  which fails on a missing key. \<open>pop_bool\<close> reads a boolean flag.
\<close>

definition pop_opt :: "string \<Rightarrow> params \<Rightarrow> json option \<times> params" where
  "pop_opt key p = (map_of (entries p) key, p\<lparr>entries := AList.delete key (entries p)\<rparr>)"

definition pop :: "string \<Rightarrow> params \<Rightarrow> (error + json) \<times> params" where
  "pop key p =
     (case map_of (entries p) key of
        None \<Rightarrow> (Inl (ConfigurationError (''key required: '' @ key)), p)
      | Some v \<Rightarrow> (Inr v, p\<lparr>entries := AList.delete key (entries p)\<rparr>))"

definition pop_bool :: "string \<Rightarrow> bool \<Rightarrow> params \<Rightarrow> (error + bool) \<times> params" where
  "pop_bool key dflt p =
     (case pop_opt key p of
        (None, p') \<Rightarrow> (Inr dflt, p')
      | (Some JNull, p') \<Rightarrow> (Inr False, p')
      | (Some (JBool b), p') \<Rightarrow> (Inr b, p')
      | (Some (JStr s), p') \<Rightarrow>
          (if s = ''true'' then (Inr True, p')
           else if s = ''false'' then (Inr False, p')
           else (Inl ValueError, p'))
      | (Some _, p') \<Rightarrow> (Inl ValueError, p'))"

text \<open>\<open>params.assert_empty\<close>: any key that is left is a configuration error.\<close>

definition assert_empty :: "string \<Rightarrow> params \<Rightarrow> error option" where
  "assert_empty class_name p =
     (if entries p \<noteq> []
      then Some (ConfigurationError (''Extra parameters passed to '' @ class_name))
      else None)"

text \<open>
  \<open>vocabulary_params.get(key, None)\<close>: only a mapping has \<open>get\<close>; on any other value
  the attribute lookup fails.
\<close>

definition json_get :: "json \<Rightarrow> string \<Rightarrow> error + json option" where
  "json_get v key = (case v of JDict kvs \<Rightarrow> Inr (map_of kvs key) | _ \<Rightarrow> Inl AttributeError)"

text \<open>
  Iterating a configuration value (\<open>for regex in no_grad_regexes\<close>, \<open>set(...)\<close>): a list
  yields its elements, a string its characters, a mapping its keys; a scalar is not
  iterable.
\<close>

definition py_iter :: "json \<Rightarrow> error + json list" where
  "py_iter v =
     (case v of
        JList xs \<Rightarrow> Inr xs
      | JStr s \<Rightarrow> Inr (map (\<lambda>c. JStr [c]) s)
      | JDict kvs \<Rightarrow> Inr (map (\<lambda>kv. JStr (fst kv)) kvs)
      | _ \<Rightarrow> Inl TypeError)"

fun hashable :: "json \<Rightarrow> bool" where
  "hashable (JList xs) = False"
| "hashable (JDict kvs) = False"
| "hashable v = True"

text \<open>
  \<open>set(x)\<close>: the elements of \<open>x\<close> without repetition; an unhashable element is a
  \<open>TypeError\<close>. Python leaves the order of a set open; the model keeps the last
  occurrence of each element in place.
\<close>

definition py_set :: "json \<Rightarrow> error + json list" where
  "py_set v =
     (case py_iter v of
        Inl e \<Rightarrow> Inl e
      | Inr xs \<Rightarrow> if list_all hashable xs then Inr (remdups xs) else Inl TypeError)"

section \<open>Model, datasets, files\<close>

type_synonym metrics = "(string \<times> real) list"

type_synonym 'i datasets = "(string \<times> 'i list) list"

text \<open>
  A model is its named parameters, each with its \<open>requires_grad\<close> flag, its vocabulary
  and the rest of its state (\<open>weights\<close>), which this workflow never looks into.
\<close>

record ('v, 'w) model =
  named_parameters :: "(string \<times> bool) list"
  vocab :: 'v
  weights :: 'w

datatype 'v artifact =
    ConfigFile json
  | MetricsFile metrics
  | VocabularyFiles 'v
  | OtherFile string

text \<open>What is at the path \<open>serialization_dir\<close>.\<close>

datatype 'v node =
    Absent
  | RegularFile
  | Directory "(string \<times> 'v artifact) list"

definition os_path_exists :: "'v node \<Rightarrow> bool" where
  "os_path_exists n = (n \<noteq> Absent)"

definition os_listdir :: "'v node \<Rightarrow> error + string list" where
  "os_listdir n = (case n of Directory es \<Rightarrow> Inr (map fst es) | _ \<Rightarrow> Inl OSError)"

definition os_makedirs :: "'v node \<Rightarrow> error + 'v node" where
  "os_makedirs n =
     (case n of
        Absent \<Rightarrow> Inr (Directory [])
      | Directory es \<Rightarrow> Inr (Directory es)
      | RegularFile \<Rightarrow> Inl OSError)"

definition dir_entries :: "'v node \<Rightarrow> (string \<times> 'v artifact) list" where
  "dir_entries n = (case n of Directory es \<Rightarrow> es | _ \<Rightarrow> [])"

text \<open>\<open>os.path.exists(os.path.join(serialization_dir, name))\<close>\<close>

definition exists_in :: "'v node \<Rightarrow> string \<Rightarrow> bool" where
  "exists_in n name = (name \<in> fst ` set (dir_entries n))"

text \<open>\<open>open(os.path.join(serialization_dir, name), "w")\<close> and a write of the content.\<close>

definition write_file :: "string \<Rightarrow> 'v artifact \<Rightarrow> 'v node \<Rightarrow> 'v node" where
  "write_file name content n = Directory (AList.update name content (dir_entries n))"

section \<open>Observable events\<close>

datatype level = WARNING | INFO

text \<open>
  Every effect of \<open>fine_tune_model\<close> on its surroundings is recorded, in the order of
  the statements that cause it: a call of a collaborator, a \<open>pop\<close> on the configuration,
  a log record (with the message as the source writes it, format arguments left out)
  and a write to the serialization directory.
\<close>

datatype ('i, 'v, 'w) event =
    PrepareEnvironment
  | Makedirs
  | PrepareGlobalLogging
  | WriteConfig json
  | Pop string
  | Log level string
  | DatasetsFromParams params
  | ExtendFromInstances json "'i list"
  | SaveVocabulary 'v
  | IteratorFromParams json
  | IndexWith 'v
  | RequiresGradFalse string
  | TrainerFromParams "('v, 'w) model" json
  | AssertEmpty
  | Train
  | ArchiveModel
  | Evaluate "'i list"
  | WriteMetrics metrics

record ('i, 'v, 'w) world =
  config :: params
  the_model :: "('v, 'w) model"
  node :: "'v node"
  trace :: "('i, 'v, 'w) event list"

definition emit :: "('i, 'v, 'w) event list \<Rightarrow> ('i, 'v, 'w) world \<Rightarrow> ('i, 'v, 'w) world" where
  "emit evs w = w\<lparr>trace := trace w @ evs\<rparr>"

section \<open>Collaborators\<close>

text \<open>
  The functions \<open>fine_tune_model\<close> calls and the two constants it imports are defined
  outside this file; they are parameters of the model. A collaborator that works on the
  serialization directory gets its entries and returns them. Those whose failure the
  specification speaks of (dataset construction, the trainer, evaluation, the regular
  expression engine) return an error or a result; \<open>train\<close> changes the model and the
  directory also when it fails.
\<close>

record ('i, 'v, 'w, 't, 'r) collaborators =
  CONFIG_NAME :: string
  DEFAULT_WEIGHTS :: string
  prepare_environment :: "params \<Rightarrow> params"
  prepare_global_logging ::
    "string \<Rightarrow> bool \<Rightarrow> (string \<times> 'v artifact) list \<Rightarrow> (string \<times> 'v artifact) list"
  datasets_from_params :: "params \<Rightarrow> error + ('i datasets \<times> params)"
  extend_from_instances :: "json \<Rightarrow> 'i list \<Rightarrow> 'v \<Rightarrow> 'v"
  iterator_from_params :: "json \<Rightarrow> 't"
  index_with :: "'v \<Rightarrow> 't \<Rightarrow> 't"
  re_search :: "string \<Rightarrow> string \<Rightarrow> error + bool"
  trainer_from_params ::
    "('v, 'w) model \<Rightarrow> string \<Rightarrow> 't \<Rightarrow> 'i list \<Rightarrow> 'i list option \<Rightarrow> json \<Rightarrow> error + 'r"
  train ::
    "'r \<Rightarrow> ('v, 'w) model \<Rightarrow> (string \<times> 'v artifact) list
      \<Rightarrow> (error + metrics) \<times> ('v, 'w) model \<times> (string \<times> 'v artifact) list"
  cuda_devices :: "'r \<Rightarrow> int list"
  archive_model ::
    "string \<Rightarrow> (string \<times> string) list \<Rightarrow> (string \<times> 'v artifact) list \<Rightarrow> (string \<times> 'v artifact) list"
  evaluate :: "('v, 'w) model \<Rightarrow> 'i list \<Rightarrow> 't \<Rightarrow> int \<Rightarrow> error + metrics"

section \<open>Sequencing\<close>

text \<open>
  A step takes the world and returns an error or a value, with the world as it left it:
  an exception does not undo what was done before it. \<open>and_then\<close> runs the second step
  only when the first returned a value.
\<close>

definition and_then ::
  "('s \<Rightarrow> (error + 'a) \<times> 's) \<Rightarrow> ('a \<Rightarrow> 's \<Rightarrow> (error + 'b) \<times> 's) \<Rightarrow> 's \<Rightarrow> (error + 'b) \<times> 's"
where
  "and_then m f s = (case m s of (Inl e, s') \<Rightarrow> (Inl e, s') | (Inr x, s') \<Rightarrow> f x s')"

definition return :: "'a \<Rightarrow> 's \<Rightarrow> (error + 'a) \<times> 's" where
  "return x s = (Inr x, s)"

section \<open>The steps of \<open>fine_tune_model\<close>\<close>

text \<open>
  \<open>fine_tune_model(model, params, serialization_dir, extend_vocab, file_friendly_logging)\<close>
  works on two mutable objects, \<open>model\<close> and \<open>params\<close>, and on the directory; they are
  the fields \<open>the_model\<close>, \<open>config\<close> and \<open>node\<close> of the world. The function is cut into
  steps at the places named below; each step is the source's statements in their order.
\<close>

subsection \<open>Lines 162 to 172: the serialization directory and the snapshot\<close>

definition not_empty_message :: string where
  "not_empty_message =
     ''Serialization directory ({serialization_dir}) already exists and is not empty.''"

definition prepare_serialization_dir ::
  "('i, 'v, 'w, 't, 'r) collaborators \<Rightarrow> string \<Rightarrow> bool
    \<Rightarrow> ('i, 'v, 'w) world \<Rightarrow> (error + unit) \<times> ('i, 'v, 'w) world"
where
  "prepare_serialization_dir C serialization_dir file_friendly_logging w =
     (let w1 = emit [PrepareEnvironment] (w\<lparr>config := prepare_environment C (config w)\<rparr>)
      in case (if os_path_exists (node w1) then os_listdir (node w1) else Inr []) of
           Inl e \<Rightarrow> (Inl e, w1)
         | Inr names \<Rightarrow>
             if names \<noteq> [] then (Inl (ConfigurationError not_empty_message), w1)
             else
               (case os_makedirs (node w1) of
                  Inl e \<Rightarrow> (Inl e, w1)
                | Inr d \<Rightarrow>
                    let w2 = emit [Makedirs] (w1\<lparr>node := d\<rparr>);
                        w3 = emit [PrepareGlobalLogging]
                               (w2\<lparr>node := Directory
                                   (prepare_global_logging C serialization_dir
                                      file_friendly_logging (dir_entries (node w2)))\<rparr>);
                        serialization_params = JDict (entries (config w3))
                    in (Inr (),
                        emit [WriteConfig serialization_params]
                          (w3\<lparr>node := write_file (CONFIG_NAME C)
                                         (ConfigFile serialization_params) (node w3)\<rparr>))))"

subsection \<open>Lines 174 to 181: the sections that are ignored\<close>

definition model_warning :: string where
  "model_warning =
     ''You passed parameters for the model in your configuration file, but we '' @
     ''are ignoring them, using instead the model parameters in the archive.''"

definition directory_path_warning :: string where
  "directory_path_warning =
     ''You passed `directory_path` in parameters for the vocabulary in '' @
     ''your configuration file, but it will be ignored. ''"

definition pop_ignored_sections ::
  "('i, 'v, 'w) world \<Rightarrow> (error + json) \<times> ('i, 'v, 'w) world"
where
  "pop_ignored_sections w =
     (let (model_section, cfg1) = pop_opt ''model'' (config w);
          w1 = emit [Pop ''model''] (w\<lparr>config := cfg1\<rparr>);
          w2 = (if truthy_opt model_section then emit [Log WARNING model_warning] w1 else w1);
          (vocabulary_section, cfg2) = pop_opt ''vocabulary'' (config w2);
          vocabulary_params = (case vocabulary_section of None \<Rightarrow> JDict [] | Some v \<Rightarrow> v);
          w3 = emit [Pop ''vocabulary''] (w2\<lparr>config := cfg2\<rparr>)
      in case json_get vocabulary_params ''directory_path'' of
           Inl e \<Rightarrow> (Inl e, w3)
         | Inr directory_path \<Rightarrow>
             (Inr vocabulary_params,
              if truthy_opt directory_path
              then emit [Log WARNING directory_path_warning] w3 else w3))"

subsection \<open>Lines 183 to 199: datasets and vocabulary\<close>

definition invalid_dataset_message :: string where
  "invalid_dataset_message = ''invalid 'dataset_for_vocab_creation' {dataset}''"

definition in_datasets :: "json \<Rightarrow> 'i datasets \<Rightarrow> bool" where
  "in_datasets dataset all_datasets =
     (case dataset of JStr name \<Rightarrow> name \<in> fst ` set all_datasets | _ \<Rightarrow> False)"

text \<open>
  The generator handed to \<open>extend_from_instances\<close>: the instances of every split of
  \<open>all_datasets\<close>, in its order, whose key is among the requested ones.
\<close>

definition instances_for_vocab :: "json list \<Rightarrow> 'i datasets \<Rightarrow> 'i list" where
  "instances_for_vocab datasets_for_vocab_creation all_datasets =
     concat (map snd (filter (\<lambda>kd. JStr (fst kd) \<in> set datasets_for_vocab_creation) all_datasets))"

definition extend_vocabulary ::
  "('i, 'v, 'w, 't, 'r) collaborators \<Rightarrow> json \<Rightarrow> 'i datasets
    \<Rightarrow> ('i, 'v, 'w) world \<Rightarrow> (error + unit) \<times> ('i, 'v, 'w) world"
where
  "extend_vocabulary C vocabulary_params all_datasets w =
     (let (requested, cfg1) = pop_opt ''datasets_for_vocab_creation'' (config w);
          w1 = emit [Pop ''datasets_for_vocab_creation''] (w\<lparr>config := cfg1\<rparr>)
      in case (case requested of
                 None \<Rightarrow> Inr (remdups (map (\<lambda>kd. JStr (fst kd)) all_datasets))
               | Some v \<Rightarrow> py_set v) of
           Inl e \<Rightarrow> (Inl e, w1)
         | Inr datasets_for_vocab_creation \<Rightarrow>
             if \<exists>dataset \<in> set datasets_for_vocab_creation. \<not> in_datasets dataset all_datasets
             then (Inl (ConfigurationError invalid_dataset_message), w1)
             else
               let instances = instances_for_vocab datasets_for_vocab_creation all_datasets;
                   m = the_model w1
               in (Inr (),
                   emit [Log INFO ''Extending model vocabulary using %s data.'',
                         ExtendFromInstances vocabulary_params instances]
                     (w1\<lparr>the_model :=
                           m\<lparr>vocab := extend_from_instances C vocabulary_params instances (vocab m)\<rparr>\<rparr>)))"

definition build_vocabulary ::
  "('i, 'v, 'w, 't, 'r) collaborators \<Rightarrow> bool \<Rightarrow> json
    \<Rightarrow> ('i, 'v, 'w) world \<Rightarrow> (error + 'i datasets) \<times> ('i, 'v, 'w) world"
where
  "build_vocabulary C extend_vocab vocabulary_params w =
     (let w0 = emit [DatasetsFromParams (config w)] w
      in case datasets_from_params C (config w) of
           Inl e \<Rightarrow> (Inl e, w0)
         | Inr (all_datasets, cfg1) \<Rightarrow>
             (case (if extend_vocab
                    then extend_vocabulary C vocabulary_params all_datasets (w0\<lparr>config := cfg1\<rparr>)
                    else (Inr (), w0\<lparr>config := cfg1\<rparr>)) of
                (Inl e, w1) \<Rightarrow> (Inl e, w1)
              | (Inr u, w1) \<Rightarrow>
                  (Inr all_datasets,
                   emit [SaveVocabulary (vocab (the_model w1))]
                     (w1\<lparr>node := write_file ''vocabulary''
                                    (VocabularyFiles (vocab (the_model w1))) (node w1)\<rparr>))))"

subsection \<open>Lines 201 to 206: the iterator and the splits\<close>

definition build_iterator ::
  "('i, 'v, 'w, 't, 'r) collaborators \<Rightarrow> 'i datasets
    \<Rightarrow> ('i, 'v, 'w) world
    \<Rightarrow> (error + 't \<times> 'i list \<times> 'i list option \<times> 'i list option) \<times> ('i, 'v, 'w) world"
where
  "build_iterator C all_datasets w =
     (case pop ''iterator'' (config w) of
        (Inl e, cfg) \<Rightarrow> (Inl e, emit [Pop ''iterator''] (w\<lparr>config := cfg\<rparr>))
      | (Inr iterator_params, cfg) \<Rightarrow>
          let iterator = index_with C (vocab (the_model w))
                           (iterator_from_params C iterator_params);
              w1 = emit [Pop ''iterator'', IteratorFromParams iterator_params,
                         IndexWith (vocab (the_model w))] (w\<lparr>config := cfg\<rparr>)
          in case map_of all_datasets ''train'' of
               None \<Rightarrow> (Inl (KeyError ''train''), w1)
             | Some train_data \<Rightarrow>
                 (Inr (iterator, train_data,
                       map_of all_datasets ''validation'', map_of all_datasets ''test''), w1))"

subsection \<open>Lines 208 to 221: freezing parameters\<close>

text \<open>
  \<open>any(re.search(regex, name) for regex in no_grad_regexes)\<close>: the patterns are tried in
  order and the first hit ends the search; \<open>re.search\<close> takes a string as its pattern.
\<close>

fun any_search ::
  "('i, 'v, 'w, 't, 'r) collaborators \<Rightarrow> json list \<Rightarrow> string \<Rightarrow> error + bool"
where
  "any_search C [] name = Inr False"
| "any_search C (JStr regex # rs) name =
     (case re_search C regex name of
        Inl e \<Rightarrow> Inl e
      | Inr hit \<Rightarrow> if hit then Inr True else any_search C rs name)"
| "any_search C (r # rs) name = Inl TypeError"

definition matches_any ::
  "('i, 'v, 'w, 't, 'r) collaborators \<Rightarrow> json \<Rightarrow> string \<Rightarrow> error + bool"
where
  "matches_any C no_grad_regexes name =
     (case py_iter no_grad_regexes of
        Inl e \<Rightarrow> Inl e
      | Inr rs \<Rightarrow> any_search C rs name)"

text \<open>
  The loop over \<open>model.named_parameters()\<close>. It returns the parameters as the loop left
  them, the names it called \<open>requires_grad_(False)\<close> on, and the error that ended it, if
  one did: the parameters before the failing one keep what the loop did to them.
\<close>

fun requires_grad_loop ::
  "('i, 'v, 'w, 't, 'r) collaborators \<Rightarrow> json \<Rightarrow> (string \<times> bool) list
    \<Rightarrow> error option \<times> (string \<times> bool) list \<times> string list"
where
  "requires_grad_loop C no_grad_regexes [] = (None, [], [])"
| "requires_grad_loop C no_grad_regexes ((name, requires_grad) # ps) =
     (case matches_any C no_grad_regexes name of
        Inl e \<Rightarrow> (Some e, (name, requires_grad) # ps, [])
      | Inr hit \<Rightarrow>
          (case requires_grad_loop C no_grad_regexes ps of
             (r, ps', names) \<Rightarrow>
               if hit then (r, (name, False) # ps', name # names)
               else (r, (name, requires_grad) # ps', names)))"

text \<open>
  Modelled from the spec: \<open>get_frozen_and_tunable_parameter_names\<close> (allennlp.common.util)
  is not among the sources. It gives the "partition of the model's trainable parameters
  into frozen (gradient disabled) and tunable (gradient enabled) sets", by name.
\<close>

definition get_frozen_and_tunable_parameter_names ::
  "('v, 'w) model \<Rightarrow> string list \<times> string list"
where
  "get_frozen_and_tunable_parameter_names m =
     (map fst (filter (\<lambda>p. \<not> snd p) (named_parameters m)),
      map fst (filter (\<lambda>p. snd p) (named_parameters m)))"

definition frozen_header :: string where
  "frozen_header = ''Following parameters are Frozen  (without gradient):''"

definition tunable_header :: string where
  "tunable_header = ''Following parameters are Tunable (with gradient):''"

definition freeze_parameters ::
  "('i, 'v, 'w, 't, 'r) collaborators \<Rightarrow> ('i, 'v, 'w) world \<Rightarrow> (error + json) \<times> ('i, 'v, 'w) world"
where
  "freeze_parameters C w =
     (case pop ''trainer'' (config w) of
        (Inl e, cfg) \<Rightarrow> (Inl e, emit [Pop ''trainer''] (w\<lparr>config := cfg\<rparr>))
      | (Inr trainer_section, cfg) \<Rightarrow>
          let w1 = emit [Pop ''trainer''] (w\<lparr>config := cfg\<rparr>)
          in case trainer_section of
               JDict kvs \<Rightarrow>
                 let no_grad_regexes =
                       (case map_of kvs ''no_grad'' of None \<Rightarrow> JList [] | Some v \<Rightarrow> v);
                     trainer_params = JDict (AList.delete ''no_grad'' kvs);
                     m = the_model w1
                 in (case requires_grad_loop C no_grad_regexes (named_parameters m) of
                       (r, ps', names) \<Rightarrow>
                         let w2 = emit (Pop ''no_grad'' # map RequiresGradFalse names)
                                    (w1\<lparr>the_model := m\<lparr>named_parameters := ps'\<rparr>\<rparr>)
                         in case r of
                              Some e \<Rightarrow> (Inl e, w2)
                            | None \<Rightarrow>
                                let (frozen_parameter_names, tunable_parameter_names) =
                                      get_frozen_and_tunable_parameter_names (the_model w2)
                                in (Inr trainer_params,
                                    emit ([Log INFO frozen_header]
                                          @ map (Log INFO) frozen_parameter_names
                                          @ [Log INFO tunable_header]
                                          @ map (Log INFO) tunable_parameter_names) w2))
             | JList xs \<Rightarrow> (Inl TypeError, w1)
             | _ \<Rightarrow> (Inl AttributeError, w1))"

subsection \<open>Lines 223 to 230: the trainer and the last configuration key\<close>

definition build_trainer ::
  "('i, 'v, 'w, 't, 'r) collaborators \<Rightarrow> string \<Rightarrow> 't \<Rightarrow> 'i list \<Rightarrow> 'i list option \<Rightarrow> json
    \<Rightarrow> ('i, 'v, 'w) world \<Rightarrow> (error + 'r \<times> bool) \<times> ('i, 'v, 'w) world"
where
  "build_trainer C serialization_dir iterator train_data validation_data trainer_params w =
     (let w1 = emit [TrainerFromParams (the_model w) trainer_params] w
      in case trainer_from_params C (the_model w) serialization_dir iterator
                train_data validation_data trainer_params of
           Inl e \<Rightarrow> (Inl e, w1)
         | Inr trainer \<Rightarrow>
             (case pop_bool ''evaluate_on_test'' False (config w1) of
                (Inl e, cfg) \<Rightarrow> (Inl e, emit [Pop ''evaluate_on_test''] (w1\<lparr>config := cfg\<rparr>))
              | (Inr evaluate_on_test, cfg) \<Rightarrow>
                  (Inr (trainer, evaluate_on_test),
                   emit [Pop ''evaluate_on_test''] (w1\<lparr>config := cfg\<rparr>))))"

subsection \<open>Lines 231 to 259: the leftover check, training, archive and metrics\<close>

definition interrupted_message :: string where
  "interrupted_message =
     ''Fine-tuning interrupted by the user. Attempting to create '' @
     ''a model archive using the current best epoch weights.''"

definition evaluate_hint :: string where
  "evaluate_hint =
     ''To evaluate on the test set after training, pass the 'evaluate_on_test' flag, '' @
     ''or use the 'allennlp evaluate' command.''"

definition do_archive_model ::
  "('i, 'v, 'w, 't, 'r) collaborators \<Rightarrow> string \<Rightarrow> ('i, 'v, 'w) world \<Rightarrow> ('i, 'v, 'w) world"
where
  "do_archive_model C serialization_dir w =
     emit [ArchiveModel]
       (w\<lparr>node := Directory (archive_model C serialization_dir
                               (files_to_archive (config w)) (dir_entries (node w)))\<rparr>)"

text \<open>\<open>for key, value in test_metrics.items(): metrics["test_" + key] = value\<close>\<close>

definition merge_test_metrics :: "metrics \<Rightarrow> metrics \<Rightarrow> metrics" where
  "merge_test_metrics test_metrics metrics =
     fold (\<lambda>kv m. AList.update (''test_'' @ fst kv) (snd kv) m) test_metrics metrics"

definition report ::
  "('i, 'v, 'w, 't, 'r) collaborators \<Rightarrow> 't \<Rightarrow> 'i list option \<Rightarrow> 'r \<Rightarrow> bool \<Rightarrow> metrics
    \<Rightarrow> ('i, 'v, 'w) world \<Rightarrow> (error + ('v, 'w) model) \<times> ('i, 'v, 'w) world"
where
  "report C iterator test_data trainer evaluate_on_test metrics w =
     (case (case test_data of
              Some (i # is) \<Rightarrow>
                if evaluate_on_test then
                  (case cuda_devices C trainer of
                     [] \<Rightarrow> (Inl IndexError, w)
                   | d # ds \<Rightarrow>
                       (case evaluate C (the_model w) (i # is) iterator d of
                          Inl e \<Rightarrow> (Inl e, emit [Evaluate (i # is)] w)
                        | Inr test_metrics \<Rightarrow>
                            (Inr (merge_test_metrics test_metrics metrics),
                             emit [Evaluate (i # is)] w)))
                else (Inr metrics, emit [Log INFO evaluate_hint] w)
            | _ \<Rightarrow> (Inr metrics, w)) of
        (Inl e, w1) \<Rightarrow> (Inl e, w1)
      | (Inr metrics', w1) \<Rightarrow>
          (Inr (the_model w1),
           emit [WriteMetrics metrics', Log INFO ''Metrics: %s'']
             (w1\<lparr>node := write_file ''metrics.json'' (MetricsFile metrics') (node w1)\<rparr>)))"

definition train_and_report ::
  "('i, 'v, 'w, 't, 'r) collaborators \<Rightarrow> string \<Rightarrow> 't \<Rightarrow> 'i list option \<Rightarrow> 'r \<Rightarrow> bool
    \<Rightarrow> ('i, 'v, 'w) world \<Rightarrow> (error + ('v, 'w) model) \<times> ('i, 'v, 'w) world"
where
  "train_and_report C serialization_dir iterator test_data trainer evaluate_on_test w =
     (let w0 = emit [AssertEmpty] w
      in case assert_empty ''base train command'' (config w0) of
           Some e \<Rightarrow> (Inl e, w0)
         | None \<Rightarrow>
             (case train C trainer (the_model w0) (dir_entries (node w0)) of
                (outcome, m, es) \<Rightarrow>
                  let w1 = emit [Train] (w0\<lparr>the_model := m, node := Directory es\<rparr>)
                  in case outcome of
                       Inl e \<Rightarrow>
                         if e = KeyboardInterrupt \<and> exists_in (node w1) (DEFAULT_WEIGHTS C)
                         then (Inl e, do_archive_model C serialization_dir
                                        (emit [Log INFO interrupted_message] w1))
                         else (Inl e, w1)
                     | Inr metrics \<Rightarrow>
                         report C iterator test_data trainer evaluate_on_test metrics
                           (do_archive_model C serialization_dir w1)))"

section \<open>\<open>fine_tune_model\<close>\<close>

text \<open>
  \<open>prepare_training\<close> is lines 201 to 230, from the iterator to the last configuration
  key; \<open>fine_tune_build\<close> is lines 183 to 230, with dataset construction and the
  vocabulary before it; \<open>fine_tune_setup\<close> is lines 162 to 230, everything before the
  leftover check. They return what the rest of the function uses.
\<close>

definition prepare_training ::
  "('i, 'v, 'w, 't, 'r) collaborators \<Rightarrow> string \<Rightarrow> 'i datasets
    \<Rightarrow> ('i, 'v, 'w) world \<Rightarrow> (error + 't \<times> 'i list option \<times> 'r \<times> bool) \<times> ('i, 'v, 'w) world"
where
  "prepare_training C serialization_dir all_datasets =
     and_then (build_iterator C all_datasets) (\<lambda>(iterator, train_data, validation_data, test_data).
     and_then (freeze_parameters C) (\<lambda>trainer_params.
     and_then (build_trainer C serialization_dir iterator train_data validation_data
                 trainer_params) (\<lambda>(trainer, evaluate_on_test).
     return (iterator, test_data, trainer, evaluate_on_test))))"

definition fine_tune_build ::
  "('i, 'v, 'w, 't, 'r) collaborators \<Rightarrow> string \<Rightarrow> bool \<Rightarrow> json
    \<Rightarrow> ('i, 'v, 'w) world \<Rightarrow> (error + 't \<times> 'i list option \<times> 'r \<times> bool) \<times> ('i, 'v, 'w) world"
where
  "fine_tune_build C serialization_dir extend_vocab vocabulary_params =
     and_then (build_vocabulary C extend_vocab vocabulary_params)
       (prepare_training C serialization_dir)"

definition fine_tune_setup ::
  "('i, 'v, 'w, 't, 'r) collaborators \<Rightarrow> string \<Rightarrow> bool \<Rightarrow> bool
    \<Rightarrow> ('i, 'v, 'w) world \<Rightarrow> (error + 't \<times> 'i list option \<times> 'r \<times> bool) \<times> ('i, 'v, 'w) world"
where
  "fine_tune_setup C serialization_dir extend_vocab file_friendly_logging =
     and_then (prepare_serialization_dir C serialization_dir file_friendly_logging) (\<lambda>u.
     and_then pop_ignored_sections (fine_tune_build C serialization_dir extend_vocab))"

definition fine_tune_model ::
  "('i, 'v, 'w, 't, 'r) collaborators \<Rightarrow> string \<Rightarrow> bool \<Rightarrow> bool
    \<Rightarrow> ('i, 'v, 'w) world \<Rightarrow> (error + ('v, 'w) model) \<times> ('i, 'v, 'w) world"
where
  "fine_tune_model C serialization_dir extend_vocab file_friendly_logging =
     and_then (fine_tune_setup C serialization_dir extend_vocab file_friendly_logging)
       (\<lambda>(iterator, test_data, trainer, evaluate_on_test).
          train_and_report C serialization_dir iterator test_data trainer evaluate_on_test)"

section \<open>Properties of every run\<close>

text \<open>
  \<open>every_run R f\<close>: the world a step leaves is related by \<open>R\<close> to the world it found,
  whether the step returned a value or an error. \<open>emits P w w'\<close>: between \<open>w\<close> and \<open>w'\<close>
  the trace has only grown, by events that satisfy \<open>P\<close>.
\<close>

definition every_run :: "('s \<Rightarrow> 's \<Rightarrow> bool) \<Rightarrow> ('s \<Rightarrow> (error + 'a) \<times> 's) \<Rightarrow> bool" where
  "every_run R f = (\<forall>s. R s (snd (f s)))"

definition emits ::
  "(('i, 'v, 'w) event \<Rightarrow> bool) \<Rightarrow> ('i, 'v, 'w) world \<Rightarrow> ('i, 'v, 'w) world \<Rightarrow> bool"
where
  "emits P w w' = (\<exists>evs. trace w' = trace w @ evs \<and> list_all P evs)"

text \<open>The events of each part of the function, by the statements that cause them.\<close>

fun dir_event :: "('i, 'v, 'w) event \<Rightarrow> bool" where
  "dir_event PrepareEnvironment = True"
| "dir_event Makedirs = True"
| "dir_event PrepareGlobalLogging = True"
| "dir_event (WriteConfig j) = True"
| "dir_event e = False"

definition section_event :: "('i, 'v, 'w) event \<Rightarrow> bool" where
  "section_event e =
     (e = Pop ''model'' \<or> e = Pop ''vocabulary'' \<or>
      e = Log WARNING model_warning \<or> e = Log WARNING directory_path_warning)"

fun build_event :: "('i, 'v, 'w) event \<Rightarrow> bool" where
  "build_event (DatasetsFromParams p) = True"
| "build_event (Pop k) = True"
| "build_event (Log l s) = (l = INFO)"
| "build_event (ExtendFromInstances j instances) = True"
| "build_event (SaveVocabulary v) = True"
| "build_event (IteratorFromParams j) = True"
| "build_event (IndexWith v) = True"
| "build_event (RequiresGradFalse n) = True"
| "build_event e = False"


fun trainer_event :: "('i, 'v, 'w) event \<Rightarrow> bool" where
  "trainer_event (TrainerFromParams m j) = True"
| "trainer_event (Pop k) = True"
| "trainer_event e = False"


text \<open>The events of lines 162 to 230.\<close>

definition setup_event :: "('i, 'v, 'w) event \<Rightarrow> bool" where
  "setup_event e = (dir_event e \<or> section_event e \<or> build_event e \<or> trainer_event e)"

text \<open>
  Relations between the world a step finds and the world it leaves. \<open>same_model\<close>: the
  model has the weights and the parameter names it had. \<open>bundle_kept\<close>: moreover, every
  model a trainer was constructed with in between has them. \<open>vocab_kept\<close>: the vocabulary
  of the model is the one it was, and every vocabulary saved or indexed with in between
  is that one.
\<close>

definition same_model :: "('i, 'v, 'w) world \<Rightarrow> ('i, 'v, 'w) world \<Rightarrow> bool" where
  "same_model w w' =
     (weights (the_model w') = weights (the_model w) \<and>
      map fst (named_parameters (the_model w')) = map fst (named_parameters (the_model w)))"

definition bundle_kept :: "('i, 'v, 'w) world \<Rightarrow> ('i, 'v, 'w) world \<Rightarrow> bool" where
  "bundle_kept w w' =
     (same_model w w' \<and>
      (\<exists>evs. trace w' = trace w @ evs \<and>
         (\<forall>m j. TrainerFromParams m j \<in> set evs \<longrightarrow>
            weights m = weights (the_model w) \<and>
            map fst (named_parameters m) = map fst (named_parameters (the_model w)))))"

definition vocab_kept :: "('i, 'v, 'w) world \<Rightarrow> ('i, 'v, 'w) world \<Rightarrow> bool" where
  "vocab_kept w w' =
     (vocab (the_model w') = vocab (the_model w) \<and>
      (\<exists>evs. trace w' = trace w @ evs \<and>
         (\<forall>v. SaveVocabulary v \<in> set evs \<or> IndexWith v \<in> set evs \<longrightarrow>
            v = vocab (the_model w))))"

section \<open>A sample environment\<close>

text \<open>
  Collaborators, a model and a configuration on which the theorems below are run:
  patterns are searched as literal substrings, dataset construction needs
  \<open>train_data_path\<close> and yields a \<open>train\<close> and a \<open>test\<close> split, training writes the
  weights file and returns one metric.
\<close>

fun literal_search :: "string \<Rightarrow> string \<Rightarrow> bool" where
  "literal_search pat [] = (pat = [])"
| "literal_search pat (c # cs) = (prefix pat (c # cs) \<or> literal_search pat cs)"

definition example_datasets :: "string datasets" where
  "example_datasets = [(''train'', [''c'', ''a'']), (''test'', [''d''])]"

definition example_collaborators ::
  "(string, string list, nat, string list, nat) collaborators"
where
  "example_collaborators =
     \<lparr>CONFIG_NAME = ''config.json'',
      DEFAULT_WEIGHTS = ''best.th'',
      prepare_environment = (\<lambda>p. p),
      prepare_global_logging = (\<lambda>d f es. AList.update ''stdout.log'' (OtherFile '''') es),
      datasets_from_params =
        (\<lambda>p. case map_of (entries p) ''train_data_path'' of
                None \<Rightarrow> Inl (ConfigurationError ''key required: train_data_path'')
              | Some v \<Rightarrow>
                  Inr (example_datasets,
                       p\<lparr>entries := AList.delete ''train_data_path'' (entries p)\<rparr>)),
      extend_from_instances =
        (\<lambda>vp instances v. v @ filter (\<lambda>i. i \<notin> set v) (remdups instances)),
      iterator_from_params = (\<lambda>j. []),
      index_with = (\<lambda>v t. v),
      re_search = (\<lambda>regex name. Inr (literal_search regex name)),
      trainer_from_params = (\<lambda>m d t train_data validation_data j. Inr 0),
      train = (\<lambda>r m es. (Inr [(''loss'', 1 / 2)], m\<lparr>weights := Suc (weights m)\<rparr>,
                          AList.update ''best.th'' (OtherFile ''weights'') es)),
      cuda_devices = (\<lambda>r. [- 1]),
      archive_model = (\<lambda>d fta es. AList.update ''model.tar.gz'' (OtherFile ''archive'') es),
      evaluate = (\<lambda>m instances t d. Inr [(''accuracy'', 9 / 10)])\<rparr>"

definition example_model :: "(string list, nat) model" where
  "example_model =
     \<lparr>named_parameters = [(''embedder.weight'', True), (''encoder.bias'', True)],
      vocab = [''a'', ''b''],
      weights = 0\<rparr>"

definition example_params :: params where
  "example_params =
     \<lparr>entries =
        [(''train_data_path'', JStr ''train.txt''),
         (''iterator'', JDict [(''type'', JStr ''basic'')]),
         (''trainer'', JDict [(''no_grad'', JList [JStr ''embed'']), (''num_epochs'', JNum 1)]),
         (''evaluate_on_test'', JBool True)],
      files_to_archive = []\<rparr>"

definition example_world :: "(string, string list, nat) world" where
  "example_world =
     \<lparr>config = example_params, the_model = example_model, node = Absent, trace = []\<rparr>"




section \<open>Basic facts\<close>

lemma trace_emit [simp]: "trace (emit evs w) = trace w @ evs"
  and config_emit [simp]: "config (emit evs w) = config w"
  and the_model_emit [simp]: "the_model (emit evs w) = the_model w"
  and node_emit [simp]: "node (emit evs w) = node w"
  by (simp_all add: emit_def)

lemma and_then_Inl: "m s = (Inl e, s') \<Longrightarrow> and_then m f s = (Inl e, s')"
  by (simp add: and_then_def)

lemma and_then_Inr: "m s = (Inr x, s') \<Longrightarrow> and_then m f s = f x s'"
  by (simp add: and_then_def)


lemma every_run_and_then:
  assumes "every_run R m" and "\<And>x. every_run R (f x)"
    and "\<And>a b c. R a b \<Longrightarrow> R b c \<Longrightarrow> R a c"
  shows "every_run R (and_then m f)"
  unfolding every_run_def
proof
  fix s
  obtain r s' where ms: "m s = (r, s')" by (cases "m s")
  from assms(1) ms have 1: "R s s'" by (auto simp: every_run_def dest: spec [of _ s])
  show "R s (snd (and_then m f s))"
  proof (cases r)
    case (Inl e)
    with ms 1 show ?thesis by (simp add: and_then_def)
  next
    case (Inr x)
    from assms(2) [of x] have "R s' (snd (f x s'))" by (simp add: every_run_def)
    with 1 assms(3) have "R s (snd (f x s'))" by blast
    with ms Inr show ?thesis by (simp add: and_then_def)
  qed
qed

lemma every_run_return: "(\<And>s. R s s) \<Longrightarrow> every_run R (return x)"
  by (simp add: every_run_def return_def)

lemma every_runD: "every_run R f \<Longrightarrow> f s = (r, s') \<Longrightarrow> R s s'"
  by (auto simp: every_run_def dest: spec [of _ s])

lemma emits_refl: "emits P w w"
  by (simp add: emits_def)

lemma emits_trans: "emits P a b \<Longrightarrow> emits P b c \<Longrightarrow> emits P a c"
  by (auto simp: emits_def)

lemma emits_weaken: "emits P a b \<Longrightarrow> (\<And>e. P e \<Longrightarrow> Q e) \<Longrightarrow> emits Q a b"
  by (auto simp: emits_def list_all_iff)

lemma emits_emit: "list_all P evs \<Longrightarrow> emits P w (emit evs w)"
  by (simp add: emits_def)

lemma every_run_weaken:
  "every_run (emits P) f \<Longrightarrow> (\<And>e. P e \<Longrightarrow> Q e) \<Longrightarrow> every_run (emits Q) f"
  unfolding every_run_def using emits_weaken by blast

lemma prepare_serialization_dir_emits:
  "every_run (emits dir_event) (prepare_serialization_dir C sd ffl)"
  by (auto simp: every_run_def emits_def prepare_serialization_dir_def Let_def
      split: sum.splits)

lemma pop_ignored_sections_emits:
  "every_run (emits section_event) pop_ignored_sections"
  by (auto simp: every_run_def emits_def pop_ignored_sections_def Let_def section_event_def
      split: sum.splits prod.splits)

lemma extend_vocabulary_emits:
  "every_run (emits build_event) (extend_vocabulary C vp ds)"
  by (auto simp: every_run_def emits_def extend_vocabulary_def Let_def
      split: sum.splits prod.splits option.splits)

lemma build_vocabulary_emits:
  "every_run (emits build_event) (build_vocabulary C ev vp)"
proof -
  have "emits build_event w (snd (build_vocabulary C ev vp w))" for w
  proof (cases "datasets_from_params C (config w)")
    case (Inl e)
    then show ?thesis
      by (simp add: build_vocabulary_def Let_def emits_def)
  next
    case (Inr x)
    obtain ds cfg where x: "x = (ds, cfg)" by (cases x)
    let ?w0 = "(emit [DatasetsFromParams (config w)] w)\<lparr>config := cfg\<rparr>"
    have 0: "emits build_event w ?w0" by (simp add: emits_def)
    show ?thesis
    proof (cases ev)
      case True
      obtain r w1 where e: "extend_vocabulary C vp ds ?w0 = (r, w1)"
        by (cases "extend_vocabulary C vp ds ?w0")
      from every_runD [OF extend_vocabulary_emits e] have 1: "emits build_event ?w0 w1" .
      have "emits build_event w1 (snd (build_vocabulary C ev vp w))"
        using Inr x True e by (cases r) (simp_all add: build_vocabulary_def Let_def emits_def)
      with 0 1 show ?thesis by (blast intro: emits_trans)
    next
      case False
      with Inr x show ?thesis
        by (simp add: build_vocabulary_def Let_def emits_def)
    qed
  qed
  then show ?thesis by (simp add: every_run_def)
qed

lemma build_iterator_emits:
  "every_run (emits build_event) (build_iterator C ds)"
  by (auto simp: every_run_def emits_def build_iterator_def Let_def pop_def
      split: sum.splits prod.splits option.splits)

lemma freeze_parameters_emits:
  "every_run (emits build_event) (freeze_parameters C)"
  by (auto simp: every_run_def emits_def freeze_parameters_def Let_def pop_def
      list_all_iff get_frozen_and_tunable_parameter_names_def
      split: sum.splits prod.splits option.splits json.splits)

lemma build_trainer_emits:
  "every_run (emits trainer_event) (build_trainer C sd it tr va tp)"
  by (auto simp: every_run_def emits_def build_trainer_def Let_def
      split: sum.splits prod.splits)



lemma emits_and_then:
  "every_run (emits P) m \<Longrightarrow> (\<And>x. every_run (emits P) (f x)) \<Longrightarrow> every_run (emits P) (and_then m f)"
  by (rule every_run_and_then) (auto elim: emits_trans)

lemma every_run_case_prod:
  "(\<And>a b. every_run R (f a b)) \<Longrightarrow> every_run R (case_prod f x)"
  by (cases x) simp

lemma emits_return: "every_run (emits P) (return x)"
  by (rule every_run_return) (rule emits_refl)

lemma fine_tune_build_emits:
  "every_run (emits (\<lambda>e. build_event e \<or> trainer_event e)) (fine_tune_build C sd ev vp)"
  unfolding fine_tune_build_def prepare_training_def
  by (intro emits_and_then every_run_case_prod emits_return
        every_run_weaken [OF build_vocabulary_emits] every_run_weaken [OF build_iterator_emits]
        every_run_weaken [OF freeze_parameters_emits] every_run_weaken [OF build_trainer_emits])
     simp_all

lemma fine_tune_setup_emits:
  "every_run (emits setup_event) (fine_tune_setup C sd ev ffl)"
  unfolding fine_tune_setup_def
  by (intro emits_and_then
        every_run_weaken [OF prepare_serialization_dir_emits]
        every_run_weaken [OF pop_ignored_sections_emits]
        every_run_weaken [OF fine_tune_build_emits])
     (auto simp: setup_event_def)

lemma setup_event_simps [simp]:
  "\<not> setup_event Train" "\<not> setup_event ArchiveModel" "\<not> setup_event (WriteMetrics ms)"
  "\<not> setup_event AssertEmpty" "\<not> setup_event (Evaluate xs)"
  by (simp_all add: setup_event_def section_event_def)

lemma emits_not_in: "emits P w w' \<Longrightarrow> \<not> P e \<Longrightarrow> \<exists>evs. trace w' = trace w @ evs \<and> e \<notin> set evs"
  by (auto simp: emits_def list_all_iff)

lemma fine_tune_model_after_setup:
  assumes "fine_tune_setup C sd ev ffl w = (Inr (iterator, test_data, trainer, eot), w1)"
  shows "fine_tune_model C sd ev ffl w = train_and_report C sd iterator test_data trainer eot w1"
  using assms by (simp add: fine_tune_model_def and_then_def)













text \<open>The definitions to unfold when a run is evaluated on the sample environment.\<close>

lemmas step_defs =
  fine_tune_model_def fine_tune_setup_def fine_tune_build_def prepare_training_def
  and_then_def return_def
  prepare_serialization_dir_def pop_ignored_sections_def build_vocabulary_def
  extend_vocabulary_def build_iterator_def freeze_parameters_def build_trainer_def
  train_and_report_def report_def do_archive_model_def merge_test_metrics_def
  get_frozen_and_tunable_parameter_names_def matches_any_def instances_for_vocab_def
  in_datasets_def

lemmas lib_defs =
  pop_def pop_opt_def pop_bool_def assert_empty_def json_get_def py_iter_def py_set_def
  truthy_opt_def os_path_exists_def os_listdir_def os_makedirs_def dir_entries_def
  exists_in_def write_file_def emit_def

lemmas example_defs =
  example_collaborators_def example_world_def example_params_def example_model_def
  example_datasets_def

section \<open>A directory that is not empty\<close>

lemma prepare_serialization_dir_nonempty:
  assumes "node w = Directory (x # xs)"
  shows "prepare_serialization_dir C sd ffl w =
           (Inl (ConfigurationError not_empty_message),
            emit [PrepareEnvironment] (w\<lparr>config := prepare_environment C (config w)\<rparr>))"
  using assms
  by (simp add: prepare_serialization_dir_def Let_def os_path_exists_def os_listdir_def)

text \<open>
  Claim C2. When the serialization directory exists and has an entry, \<open>fine_tune_model\<close>
  raises the configuration error of line 164 and leaves the world as it was, but for
  the call of \<open>prepare_environment\<close> before the check: the directory and the model are
  untouched, and the only event is that call, so nothing is written and no training
  is started.
\<close>

theorem nonempty_directory_is_refused:
  assumes "node w = Directory es" and "es \<noteq> []"
  shows "fine_tune_model C serialization_dir extend_vocab file_friendly_logging w =
           (Inl (ConfigurationError not_empty_message),
            w\<lparr>config := prepare_environment C (config w),
              trace := trace w @ [PrepareEnvironment]\<rparr>)"
proof -
  from assms obtain x xs where "node w = Directory (x # xs)"
    by (cases es) auto
  then show ?thesis
    by (simp add: fine_tune_model_def fine_tune_setup_def and_then_def
        prepare_serialization_dir_nonempty emit_def)
qed

theorem nonempty_directory_is_refused_witness:
  "fine_tune_model example_collaborators ''out'' False False
     (example_world\<lparr>node := Directory [(''old.txt'', OtherFile ''x'')]\<rparr>) =
   (Inl (ConfigurationError not_empty_message),
    example_world\<lparr>node := Directory [(''old.txt'', OtherFile ''x'')],
                  trace := [PrepareEnvironment]\<rparr>)"
  using nonempty_directory_is_refused
    [of "example_world\<lparr>node := Directory [(''old.txt'', OtherFile ''x'')]\<rparr>"
        "[(''old.txt'', OtherFile ''x'')]" example_collaborators "''out''" False False]
  by (simp add: example_world_def example_collaborators_def)

section \<open>Freezing parameters\<close>

lemma any_search_iff:
  "any_search C rs name = Inr b \<Longrightarrow>
     b = (\<exists>regex. JStr regex \<in> set rs \<and> re_search C regex name = Inr True)"
proof (induction C rs name rule: any_search.induct)
  case (1 C name)
  then show ?case by simp
next
  case (2 C regex rs name)
  then show ?case
    by (auto split: sum.splits if_splits)
qed simp_all

lemma matches_any_iff:
  assumes "py_iter no_grad_regexes = Inr rs" and "matches_any C no_grad_regexes name = Inr b"
  shows "b = (\<exists>regex. JStr regex \<in> set rs \<and> re_search C regex name = Inr True)"
  using assms by (simp add: matches_any_def any_search_iff)

lemma requires_grad_loop_success:
  "requires_grad_loop C ng ps = (None, ps', names) \<Longrightarrow>
     ps' = map (\<lambda>p. (fst p, snd p \<and> matches_any C ng (fst p) \<noteq> Inr True)) ps \<and>
     names = filter (\<lambda>n. matches_any C ng n = Inr True) (map fst ps) \<and>
     (\<forall>n \<in> fst ` set ps. \<exists>b. matches_any C ng n = Inr b)"
proof (induction ps arbitrary: ps' names)
  case Nil
  then show ?case by simp
next
  case (Cons p ps)
  obtain name g where p: "p = (name, g)" by (cases p)
  from Cons.prems p obtain hit where hit: "matches_any C ng name = Inr hit"
    by (cases "matches_any C ng name") auto
  obtain r qs ns where rec: "requires_grad_loop C ng ps = (r, qs, ns)"
    by (cases "requires_grad_loop C ng ps") auto
  from Cons.prems p hit rec have r: "r = None"
    by (auto split: if_splits)
  from Cons.IH [of qs ns] rec r
  have IH: "qs = map (\<lambda>p. (fst p, snd p \<and> matches_any C ng (fst p) \<noteq> Inr True)) ps"
    "ns = filter (\<lambda>n. matches_any C ng n = Inr True) (map fst ps)"
    "\<forall>n \<in> fst ` set ps. \<exists>b. matches_any C ng n = Inr b"
    by simp_all
  from Cons.prems p hit rec IH show ?case
    by (cases hit) auto
qed

text \<open>What a freezing step that returned has done.\<close>

lemma freeze_parameters_success:
  assumes run: "freeze_parameters C w = (Inr trainer_params, w')"
    and trainer: "map_of (entries (config w)) ''trainer'' = Some (JDict kvs)"
  defines "ng \<equiv> (case map_of kvs ''no_grad'' of None \<Rightarrow> JList [] | Some v \<Rightarrow> v)"
  defines "ps \<equiv> named_parameters (the_model w)"
  defines "ps' \<equiv> map (\<lambda>p. (fst p, snd p \<and> matches_any C ng (fst p) \<noteq> Inr True)) ps"
  shows "the_model w' = (the_model w)\<lparr>named_parameters := ps'\<rparr>"
    and "\<forall>n \<in> fst ` set ps. \<exists>b. matches_any C ng n = Inr b"
    and "trace w' = trace w @ [Pop ''trainer'', Pop ''no_grad'']
           @ map RequiresGradFalse (filter (\<lambda>n. matches_any C ng n = Inr True) (map fst ps))
           @ [Log INFO frozen_header]
           @ map (Log INFO) (map fst (filter (\<lambda>p. \<not> snd p) ps'))
           @ [Log INFO tunable_header]
           @ map (Log INFO) (map fst (filter (\<lambda>p. snd p) ps'))"
proof -
  obtain r qs ns where loop: "requires_grad_loop C ng ps = (r, qs, ns)"
    by (cases "requires_grad_loop C ng ps") auto
  from run trainer loop have r: "r = None"
    by (auto simp: freeze_parameters_def pop_def Let_def ng_def ps_def split: option.splits)
  note facts = requires_grad_loop_success [OF loop [unfolded r]]
  from facts have qs: "qs = ps'" by (simp add: ps'_def)
  from run trainer loop r qs show "the_model w' = (the_model w)\<lparr>named_parameters := ps'\<rparr>"
    by (auto simp: freeze_parameters_def pop_def Let_def ng_def ps_def
        get_frozen_and_tunable_parameter_names_def)
  from facts show "\<forall>n \<in> fst ` set ps. \<exists>b. matches_any C ng n = Inr b" by simp
  from facts have ns: "ns = filter (\<lambda>n. matches_any C ng n = Inr True) (map fst ps)" by simp
  from run trainer loop r qs ns
  show "trace w' = trace w @ [Pop ''trainer'', Pop ''no_grad'']
           @ map RequiresGradFalse (filter (\<lambda>n. matches_any C ng n = Inr True) (map fst ps))
           @ [Log INFO frozen_header]
           @ map (Log INFO) (map fst (filter (\<lambda>p. \<not> snd p) ps'))
           @ [Log INFO tunable_header]
           @ map (Log INFO) (map fst (filter (\<lambda>p. snd p) ps'))"
    by (auto simp: freeze_parameters_def pop_def Let_def ng_def ps_def
        get_frozen_and_tunable_parameter_names_def emit_def)
qed

lemma frozen_tunable_union:
  "set (map fst (filter (\<lambda>p. \<not> snd p) ps)) \<union> set (map fst (filter snd ps)) = fst ` set ps"
  by (induction ps) auto

lemma frozen_tunable_disjoint:
  assumes "distinct (map fst ps)"
  shows "set (map fst (filter (\<lambda>p. \<not> snd p) ps)) \<inter> set (map fst (filter snd ps)) = {}"
proof -
  have False if "n \<in> set (map fst (filter (\<lambda>p. \<not> snd p) ps))" "n \<in> set (map fst (filter snd ps))" for n
  proof -
    from that(1) obtain p where p: "p \<in> set ps" "\<not> snd p" "n = fst p" by auto
    have "p = (n, False)" using p(2,3) by (simp add: prod_eq_iff)
    with p(1) have 1: "(n, False) \<in> set ps" by simp
    from that(2) obtain q where q: "q \<in> set ps" "snd q" "n = fst q" by auto
    have "q = (n, True)" using q(2,3) by (simp add: prod_eq_iff)
    with q(1) have 2: "(n, True) \<in> set ps" by simp
    from eq_key_imp_eq_value [OF assms 1 2] show False by simp
  qed
  then show ?thesis by blast
qed

lemma flag_after:
  assumes "(name, g') \<in> set (map (\<lambda>p. (fst p, snd p \<and> \<not> M (fst p))) ps)"
    and "distinct (map fst ps)"
  shows "\<not> g' \<longleftrightarrow> (name, False) \<in> set ps \<or> M name"
proof -
  from assms(1) obtain p where p: "p \<in> set ps" "name = fst p" "g' = (snd p \<and> \<not> M (fst p))"
    by auto
  then have in_ps: "(name, snd p) \<in> set ps" by simp
  have "(name, False) \<in> set ps \<longleftrightarrow> \<not> snd p"
  proof
    assume "(name, False) \<in> set ps"
    from eq_key_imp_eq_value [OF assms(2) this in_ps] show "\<not> snd p" by simp
  next
    assume "\<not> snd p"
    with in_ps show "(name, False) \<in> set ps" by simp
  qed
  with p show ?thesis by auto
qed

text \<open>
  Claim C1, as amended. The loop of lines 210 to 212 only ever switches gradient
  tracking off. After a freezing step that returned, a parameter has gradient tracking
  disabled if and only if it was disabled in the model that came in or its name is hit
  by \<open>re.search\<close> for at least one pattern of \<open>no_grad\<close>; the names are the same as
  before. The two lists of \<open>get_frozen_and_tunable_parameter_names\<close> are disjoint,
  together they are all parameter names, and they are what is logged, the frozen names
  after the first header and the tunable names after the second. Parameter names are
  taken to be distinct, as \<open>named_parameters()\<close> yields them.
\<close>

theorem freezing_step_flags:
  assumes run: "freeze_parameters C w = (Inr trainer_params, w')"
    and trainer: "map_of (entries (config w)) ''trainer'' = Some (JDict kvs)"
    and patterns: "py_iter (case map_of kvs ''no_grad'' of None \<Rightarrow> JList [] | Some v \<Rightarrow> v) = Inr rs"
    and names: "distinct (map fst (named_parameters (the_model w)))"
  shows "map fst (named_parameters (the_model w')) = map fst (named_parameters (the_model w)) \<and>
     (\<forall>name g'. (name, g') \<in> set (named_parameters (the_model w')) \<longrightarrow>
        (\<not> g' \<longleftrightarrow> (name, False) \<in> set (named_parameters (the_model w)) \<or>
                 (\<exists>regex. JStr regex \<in> set rs \<and> re_search C regex name = Inr True))) \<and>
     (case get_frozen_and_tunable_parameter_names (the_model w') of
        (frozen, tunable) \<Rightarrow>
          set frozen \<inter> set tunable = {} \<and>
          set frozen \<union> set tunable = fst ` set (named_parameters (the_model w)) \<and>
          (\<exists>calls. trace w' = trace w @ [Pop ''trainer'', Pop ''no_grad'']
             @ map RequiresGradFalse calls
             @ [Log INFO frozen_header] @ map (Log INFO) frozen
             @ [Log INFO tunable_header] @ map (Log INFO) tunable))"
proof -
  define ng where "ng = (case map_of kvs ''no_grad'' of None \<Rightarrow> JList [] | Some v \<Rightarrow> v)"
  define ps where "ps = named_parameters (the_model w)"
  define matched where
    "matched = (\<lambda>name. \<exists>regex. JStr regex \<in> set rs \<and> re_search C regex name = Inr True)"
  define ps' where "ps' = map (\<lambda>p. (fst p, snd p \<and> matches_any C ng (fst p) \<noteq> Inr True)) ps"
  note s = freeze_parameters_success [OF run trainer, folded ng_def ps_def, folded ps'_def]
  have m: "matches_any C ng n = Inr True \<longleftrightarrow> matched n" if "n \<in> fst ` set ps" for n
  proof -
    from s(2) that obtain b where b: "matches_any C ng n = Inr b" by blast
    from matches_any_iff [OF patterns [folded ng_def] b] b show ?thesis
      by (simp add: matched_def)
  qed
  have "map (\<lambda>p. (fst p, snd p \<and> matches_any C ng (fst p) \<noteq> Inr True)) ps =
        map (\<lambda>p. (fst p, snd p \<and> \<not> matched (fst p))) ps"
    by (rule map_cong) (simp_all add: m)
  then have ps'_eq: "ps' = map (\<lambda>p. (fst p, snd p \<and> \<not> matched (fst p))) ps"
    by (simp add: ps'_def)
  have model: "named_parameters (the_model w') = ps'"
    using s(1) by simp
  have a: "map fst ps' = map fst ps"
    by (simp add: ps'_def comp_def)
  have d: "distinct (map fst ps)" using names by (simp add: ps_def)
  have d': "distinct (map fst ps')" using a d by simp
  have b: "\<forall>name g'. (name, g') \<in> set ps' \<longrightarrow> (\<not> g' \<longleftrightarrow> (name, False) \<in> set ps \<or> matched name)"
    using flag_after [of _ _ matched ps, OF _ d] unfolding ps'_eq by blast
  have c1: "set (map fst (filter (\<lambda>p. \<not> snd p) ps')) \<inter> set (map fst (filter snd ps')) = {}"
    by (rule frozen_tunable_disjoint [OF d'])
  have "fst ` set ps' = set (map fst ps')" by simp
  also have "\<dots> = fst ` set ps" unfolding a by simp
  finally have img: "fst ` set ps' = fst ` set ps" .
  have c2: "set (map fst (filter (\<lambda>p. \<not> snd p) ps')) \<union> set (map fst (filter snd ps')) = fst ` set ps"
    unfolding frozen_tunable_union img ..
  have c3: "\<exists>calls. trace w' = trace w @ [Pop ''trainer'', Pop ''no_grad'']
             @ map RequiresGradFalse calls
             @ [Log INFO frozen_header] @ map (Log INFO) (map fst (filter (\<lambda>p. \<not> snd p) ps'))
             @ [Log INFO tunable_header] @ map (Log INFO) (map fst (filter snd ps'))"
    using s(3) by blast
  have names_eq: "map fst (named_parameters (the_model w')) = map fst (named_parameters (the_model w))"
    using a by (simp only: model ps_def)
  have flags: "\<forall>name g'. (name, g') \<in> set (named_parameters (the_model w')) \<longrightarrow>
        (\<not> g' \<longleftrightarrow> (name, False) \<in> set (named_parameters (the_model w)) \<or>
                 (\<exists>regex. JStr regex \<in> set rs \<and> re_search C regex name = Inr True))"
    using b by (simp only: model ps_def matched_def)
  have lists: "(case get_frozen_and_tunable_parameter_names (the_model w') of
        (frozen, tunable) \<Rightarrow>
          set frozen \<inter> set tunable = {} \<and>
          set frozen \<union> set tunable = fst ` set (named_parameters (the_model w)) \<and>
          (\<exists>calls. trace w' = trace w @ [Pop ''trainer'', Pop ''no_grad'']
             @ map RequiresGradFalse calls
             @ [Log INFO frozen_header] @ map (Log INFO) frozen
             @ [Log INFO tunable_header] @ map (Log INFO) tunable))"
    unfolding get_frozen_and_tunable_parameter_names_def model prod.case ps_def [symmetric]
    using c1 c2 c3 by (intro conjI)
  from names_eq flags lists show ?thesis by (intro conjI)
qed

text \<open>
  The sample run: the pattern \<open>embed\<close> freezes \<open>embedder.weight\<close> and leaves
  \<open>encoder.bias\<close> tunable.
\<close>

theorem freezing_step_flags_witness:
  "fst (freeze_parameters example_collaborators example_world) =
     Inr (JDict [(''num_epochs'', JNum 1)]) \<and>
   distinct (map fst (named_parameters (the_model example_world))) \<and>
   named_parameters (the_model (snd (freeze_parameters example_collaborators example_world))) =
     [(''embedder.weight'', False), (''encoder.bias'', True)] \<and>
   get_frozen_and_tunable_parameter_names
     (the_model (snd (freeze_parameters example_collaborators example_world))) =
     ([''embedder.weight''], [''encoder.bias''])"
  using freezing_step_flags
    [of example_collaborators example_world "JDict [(''num_epochs'', JNum 1)]"
        "snd (freeze_parameters example_collaborators example_world)"
        "[(''no_grad'', JList [JStr ''embed'']), (''num_epochs'', JNum 1)]" "[JStr ''embed'']"]
  by (simp add: step_defs lib_defs example_defs Let_def)

text \<open>
  Claim C1 as it is stated fails on a model that comes in with a frozen parameter:
  \<open>encoder.bias\<close> is not hit by the only pattern, \<open>embed\<close>, and the model handed to
  the trainer after the freezing step still has it without gradient tracking.
\<close>
theorem already_frozen_parameter_counterexample:
  "matches_any example_collaborators (JList [JStr ''embed'']) ''encoder.bias'' = Inr False \<and>
   TrainerFromParams
     (example_model\<lparr>named_parameters := [(''embedder.weight'', False), (''encoder.bias'', False)]\<rparr>)
     (JDict [(''num_epochs'', JNum 1)])
   \<in> set (trace (snd (fine_tune_model example_collaborators ''out'' False False
        (example_world\<lparr>the_model := example_model\<lparr>named_parameters :=
            [(''embedder.weight'', True), (''encoder.bias'', False)]\<rparr>\<rparr>))))"
  by (simp add: step_defs lib_defs example_defs Let_def)

section \<open>The leftover check\<close>

text \<open>
  Claim C5. When lines 162 to 230 have all returned, so that \<open>model\<close>, \<open>vocabulary\<close>,
  \<open>iterator\<close>, \<open>trainer\<close> and \<open>evaluate_on_test\<close> have been taken out of the
  configuration, and a key is still left in it, \<open>fine_tune_model\<close> ends at line 231 with
  the configuration error of \<open>assert_empty\<close>; the world is the one the setup left, and
  among the events of the run there is no \<open>Train\<close>: \<open>trainer.train()\<close> is never called.
\<close>

theorem leftover_keys_fail_before_training:
  assumes reached: "fine_tune_setup C serialization_dir extend_vocab file_friendly_logging w =
                    (Inr (iterator, test_data, trainer, evaluate_on_test), w1)"
    and leftover: "entries (config w1) \<noteq> []"
  shows "\<exists>evs. fine_tune_model C serialization_dir extend_vocab file_friendly_logging w =
           (Inl (ConfigurationError ''Extra parameters passed to base train command''),
            w1\<lparr>trace := trace w @ evs\<rparr>) \<and>
          Train \<notin> set evs"
proof -
  from every_runD [OF fine_tune_setup_emits reached]
  obtain evs where evs: "trace w1 = trace w @ evs" "list_all setup_event evs"
    by (auto simp: emits_def)
  have "Train \<notin> set (evs @ [AssertEmpty])"
    using evs(2) by (auto simp: list_all_iff)
  moreover have "fine_tune_model C serialization_dir extend_vocab file_friendly_logging w =
           (Inl (ConfigurationError ''Extra parameters passed to base train command''),
            w1\<lparr>trace := trace w @ (evs @ [AssertEmpty])\<rparr>)"
    using reached leftover evs(1)
    by (simp add: fine_tune_model_def and_then_def train_and_report_def assert_empty_def
        Let_def emit_def)
  ultimately show ?thesis by blast
qed

lemma example_leftover_eval:
  "(case fine_tune_setup example_collaborators ''out'' False False
          (example_world\<lparr>config := example_params
             \<lparr>entries := entries example_params @ [(''trainer_typo'', JNum 3)]\<rparr>\<rparr>) of
      (r, w1) \<Rightarrow> r = Inr ([''a'', ''b''], Some [''d''], 0, True) \<and>
        entries (config w1) = [(''trainer_typo'', JNum 3)])"
  by code_simp

text \<open>
  The sample configuration with one key more, \<open>trainer_typo\<close>: every step up to the check
  returns, the key is left, and the run ends with the configuration error.
\<close>

theorem leftover_keys_fail_before_training_witness:
  "fst (fine_tune_model example_collaborators ''out'' False False
     (example_world\<lparr>config := example_params
        \<lparr>entries := entries example_params @ [(''trainer_typo'', JNum 3)]\<rparr>\<rparr>)) =
     Inl (ConfigurationError ''Extra parameters passed to base train command'')"
proof -
  obtain r w1 where
    s: "fine_tune_setup example_collaborators ''out'' False False
          (example_world\<lparr>config := example_params
             \<lparr>entries := entries example_params @ [(''trainer_typo'', JNum 3)]\<rparr>\<rparr>) = (r, w1)"
    by (cases "fine_tune_setup example_collaborators ''out'' False False
          (example_world\<lparr>config := example_params
             \<lparr>entries := entries example_params @ [(''trainer_typo'', JNum 3)]\<rparr>\<rparr>)")
  note e = example_leftover_eval [unfolded s prod.case]
  from e s have
    1: "fine_tune_setup example_collaborators ''out'' False False
          (example_world\<lparr>config := example_params
             \<lparr>entries := entries example_params @ [(''trainer_typo'', JNum 3)]\<rparr>\<rparr>) =
          (Inr ([''a'', ''b''], Some [''d''], 0, True), w1)"
    by blast
  from e have "entries (config w1) = [(''trainer_typo'', JNum 3)]" by blast
  then have 2: "entries (config w1) \<noteq> []" by simp
  from leftover_keys_fail_before_training [OF 1 2] show ?thesis by auto
qed

section \<open>Interrupted training\<close>




section \<open>Test metrics\<close>

lemma merge_test_metrics_other:
  "key \<notin> (\<lambda>kv. ''test_'' @ fst kv) ` set test_metrics \<Longrightarrow>
     map_of (merge_test_metrics test_metrics metrics) key = map_of metrics key"
  unfolding merge_test_metrics_def
  by (induction test_metrics arbitrary: metrics) (auto simp: update_conv')

lemma merge_test_metrics_test:
  "distinct (map fst test_metrics) \<Longrightarrow> (k, v) \<in> set test_metrics \<Longrightarrow>
     map_of (merge_test_metrics test_metrics metrics) (''test_'' @ k) = Some v"
proof (induction test_metrics arbitrary: metrics)
  case Nil
  then show ?case by simp
next
  case (Cons x xs)
  show ?case
  proof (cases "(k, v) \<in> set xs")
    case True
    with Cons show ?thesis by (simp add: merge_test_metrics_def)
  next
    case False
    with Cons.prems have x: "x = (k, v)" by simp
    from Cons.prems x have "k \<notin> fst ` set xs" by simp
    then have "''test_'' @ k \<notin> (\<lambda>kv. ''test_'' @ fst kv) ` set xs" by force
    from merge_test_metrics_other [OF this]
    have "map_of (merge_test_metrics xs (AList.update (''test_'' @ k) v metrics)) (''test_'' @ k) = Some v"
      by (simp add: update_conv')
    with x show ?thesis by (simp add: merge_test_metrics_def)
  qed
qed

lemma merge_test_metrics_keys:
  "fst ` set (merge_test_metrics test_metrics metrics) =
     fst ` set metrics \<union> (\<lambda>kv. ''test_'' @ fst kv) ` set test_metrics"
  unfolding merge_test_metrics_def
  by (induction test_metrics arbitrary: metrics) (auto simp: dom_update)

text \<open>
  Claim C9. When the setup has returned with a test split that is not empty and with
  \<open>evaluate_on_test\<close> true, the configuration is used up, training returned \<open>metrics\<close>
  and the evaluation returned \<open>test_metrics\<close> (a dictionary: its keys are distinct), then
  the run returns the trained model and \<open>metrics.json\<close> holds a document in which
  every key \<open>k\<close> of \<open>test_metrics\<close> is found as \<open>test_k\<close> with its value, every key
  of the trainer's metrics is present, and a trainer's metric keeps its value unless
  its key is one of the \<open>test_k\<close>.
\<close>

theorem test_metrics_are_prefixed:
  assumes reached: "fine_tune_setup C serialization_dir extend_vocab file_friendly_logging w =
                      (Inr (iterator, Some test_data, trainer, True), w1)"
    and present: "test_data \<noteq> []"
    and consumed: "entries (config w1) = []"
    and trained: "train C trainer (the_model w1) (dir_entries (node w1)) = (Inr metrics, m, es)"
    and device: "cuda_devices C trainer = d # ds"
    and evaluated: "evaluate C m test_data iterator d = Inr test_metrics"
    and keys: "distinct (map fst test_metrics)"
  shows "\<exists>w' final.
           fine_tune_model C serialization_dir extend_vocab file_friendly_logging w = (Inr m, w') \<and>
           map_of (dir_entries (node w')) ''metrics.json'' = Some (MetricsFile final) \<and>
           (\<forall>k v. (k, v) \<in> set test_metrics \<longrightarrow> map_of final (''test_'' @ k) = Some v) \<and>
           fst ` set metrics \<subseteq> fst ` set final \<and>
           (\<forall>k v. map_of metrics k = Some v \<and>
                  k \<notin> (\<lambda>kv. ''test_'' @ fst kv) ` set test_metrics \<longrightarrow>
                  map_of final k = Some v)"
proof -
  from present obtain i rest where td: "test_data = i # rest" by (cases test_data) auto
  let ?final = "merge_test_metrics test_metrics metrics"
  let ?w2 = "do_archive_model C serialization_dir
               (emit [Train] ((emit [AssertEmpty] w1)\<lparr>the_model := m, node := Directory es\<rparr>))"
  let ?w' = "emit [WriteMetrics ?final, Log INFO ''Metrics: %s'']
               ((emit [Evaluate test_data] ?w2)
                  \<lparr>node := write_file ''metrics.json'' (MetricsFile ?final)
                             (node (emit [Evaluate test_data] ?w2))\<rparr>)"
  have model: "the_model ?w2 = m" by (simp add: do_archive_model_def)
  have rep: "report C iterator (Some test_data) trainer True metrics ?w2 = (Inr m, ?w')"
    using device evaluated td model
    by (simp add: report_def)
  have run: "fine_tune_model C serialization_dir extend_vocab file_friendly_logging w = (Inr m, ?w')"
    using consumed trained rep
    by (simp add: fine_tune_model_after_setup [OF reached] train_and_report_def
        assert_empty_def Let_def)
  have written: "map_of (dir_entries (node ?w')) ''metrics.json'' = Some (MetricsFile ?final)"
    by (simp add: write_file_def dir_entries_def update_conv')
  have t: "\<forall>k v. (k, v) \<in> set test_metrics \<longrightarrow> map_of ?final (''test_'' @ k) = Some v"
    using merge_test_metrics_test [OF keys] by blast
  have u: "fst ` set metrics \<subseteq> fst ` set ?final"
    by (simp add: merge_test_metrics_keys)
  have o: "\<forall>k v. map_of metrics k = Some v \<and>
                  k \<notin> (\<lambda>kv. ''test_'' @ fst kv) ` set test_metrics \<longrightarrow>
                  map_of ?final k = Some v"
    using merge_test_metrics_other by metis
  from run written t u o show ?thesis by blast
qed

lemma example_setup_eval:
  "(case fine_tune_setup example_collaborators ''out'' False False example_world of
      (r, w1) \<Rightarrow> r = Inr ([''a'', ''b''], Some [''d''], 0, True) \<and>
        entries (config w1) = [] \<and>
        the_model w1 = example_model\<lparr>named_parameters :=
               [(''embedder.weight'', False), (''encoder.bias'', True)]\<rparr> \<and>
        train example_collaborators 0 (the_model w1) (dir_entries (node w1)) =
          (Inr [(''loss'', 1 / 2)], (the_model w1)\<lparr>weights := 1\<rparr>,
           AList.update ''best.th'' (OtherFile ''weights'') (dir_entries (node w1))))"
  by code_simp

text \<open>
  The sample run: the evaluation returns \<open>accuracy\<close> with 0.9, and the metrics document
  has \<open>test_accuracy\<close> with 0.9 beside the trainer's \<open>loss\<close>.
\<close>

theorem test_metrics_are_prefixed_witness:
  "\<exists>w' final.
     fine_tune_model example_collaborators ''out'' False False example_world =
       (Inr (example_model\<lparr>named_parameters :=
               [(''embedder.weight'', False), (''encoder.bias'', True)], weights := 1\<rparr>), w') \<and>
     map_of (dir_entries (node w')) ''metrics.json'' = Some (MetricsFile final) \<and>
     map_of final ''test_accuracy'' = Some (9 / 10) \<and> ''loss'' \<in> fst ` set final"
proof -
  obtain r w1 where s: "fine_tune_setup example_collaborators ''out'' False False example_world = (r, w1)"
    by (cases "fine_tune_setup example_collaborators ''out'' False False example_world")
  note e = example_setup_eval [unfolded s prod.case]
  from e s have
    1: "fine_tune_setup example_collaborators ''out'' False False example_world =
          (Inr ([''a'', ''b''], Some [''d''], 0, True), w1)"
    by blast
  from e have 2: "entries (config w1) = []"
    and m: "the_model w1 = example_model\<lparr>named_parameters :=
               [(''embedder.weight'', False), (''encoder.bias'', True)]\<rparr>"
    and 3: "train example_collaborators 0 (the_model w1) (dir_entries (node w1)) =
          (Inr [(''loss'', 1 / 2)], (the_model w1)\<lparr>weights := 1\<rparr>,
           AList.update ''best.th'' (OtherFile ''weights'') (dir_entries (node w1)))"
    by blast+
  have p: "[''d''] \<noteq> []" by simp
  have 4: "cuda_devices example_collaborators 0 = - 1 # []"
    by (simp add: example_collaborators_def)
  have 5: "evaluate example_collaborators ((the_model w1)\<lparr>weights := 1\<rparr>) [''d''] [''a'', ''b''] (- 1) =
             Inr [(''accuracy'', 9 / 10)]"
    by (simp add: example_collaborators_def)
  have k: "distinct (map fst [(''accuracy'', 9 / 10 :: real)])" by simp
  from test_metrics_are_prefixed [OF 1 p 2 3 4 5 k]
  obtain w' final where
    a: "fine_tune_model example_collaborators ''out'' False False example_world =
       (Inr ((the_model w1)\<lparr>weights := 1\<rparr>), w')"
    and b: "map_of (dir_entries (node w')) ''metrics.json'' = Some (MetricsFile final)"
    and c: "\<forall>k v. (k, v) \<in> set [(''accuracy'', 9 / 10)] \<longrightarrow> map_of final (''test_'' @ k) = Some v"
    and d: "fst ` set [(''loss'', 1 / 2 :: real)] \<subseteq> fst ` set final"
    by blast
  from c have c': "map_of final ''test_accuracy'' = Some (9 / 10)" by simp
  from d have d': "''loss'' \<in> fst ` set final" by simp
  from a m have a': "fine_tune_model example_collaborators ''out'' False False example_world =
       (Inr (example_model\<lparr>named_parameters :=
               [(''embedder.weight'', False), (''encoder.bias'', True)], weights := 1\<rparr>), w')"
    by simp
  from a' b c' d' show ?thesis by blast
qed

section \<open>The snapshot of the configuration\<close>




section \<open>Extending the vocabulary\<close>






end
